theory Spec2Isabelle
  imports Complex_Main "HOL-Library.Word"
begin

section \<open>The data a node works on\<close>

text \<open>
  \<^verbatim>\<open>Node.cpp\<close> implements the class \<^verbatim>\<open>QtNodes::Node\<close>. A node owns its identifier, its
  data model, its \<^verbatim>\<open>NodeState\<close> (the port bookkeeping), its \<^verbatim>\<open>NodeGeometry\<close> and, once
  \<^verbatim>\<open>setGraphicsObject\<close> has run, its graphics object. The port bookkeeping holds raw
  pointers to \<^verbatim>\<open>Connection\<close> objects that live outside the node and are mutated through
  these pointers, so the connection objects are kept in an explicit store indexed by
  address.

  The headers of the collaborating classes are not part of the source file. What the node
  calls on them is modelled as follows: plain accessors and setters
  (\<^verbatim>\<open>getEntries\<close>, \<^verbatim>\<open>getNode\<close>, \<^verbatim>\<open>getPortIndex\<close>, \<^verbatim>\<open>setNodeToPort\<close>, \<^verbatim>\<open>setReaction\<close>,
  \<^verbatim>\<open>setDraggingPosition\<close>, \<^verbatim>\<open>pos\<close>, \<^verbatim>\<open>setPos\<close>) read and write the field their name says;
  calls whose effect lies in the collaborator (repainting, recomputing a size, handing data
  to the model or to a connection, emitting a signal) are appended to a log of calls in the
  order in which the node makes them.
\<close>

text \<open>
  Modelled from the spec: the declarations of \<^verbatim>\<open>PortType\<close> and \<^verbatim>\<open>PortIndex\<close> are not in
  the source file. A port type names one of the two sides of a node. A port index is a
  C++ \<^verbatim>\<open>int\<close> (the source assigns it to \<^verbatim>\<open>int\<close> variables). Where the node passes an
  index on or uses it as a position in a vector, the index is read as an integer, and an
  index that does not fit the vector it is used on is an error of the operation. The port
  index stored in a connection is the value the node computes with: it adds one to it and
  subtracts one from it, in the 32-bit signed integer type, whose sums wrap around. It is a
  32-bit word, and \<open>sint\<close> reads its signed value.
\<close>

datatype PortType = In | Out

type_synonym PortIndex = int

type_synonym CInt = "32 word"

type_synonym QUuid = "128 word"

text \<open>Addresses of \<^verbatim>\<open>Connection\<close> and \<^verbatim>\<open>Node\<close> objects.\<close>

type_synonym ConnectionPtr = nat

type_synonym NodePtr = nat

text \<open>
  Modelled from the spec: the class \<^verbatim>\<open>Connection\<close> and its member functions
  \<^verbatim>\<open>getNode\<close>, \<^verbatim>\<open>getPortIndex\<close> and \<^verbatim>\<open>setNodeToPort\<close> are not in the source file. A
  connection stores, for each of its two sides, the node it is attached to (a null pointer
  when that side is loose) and its port index at that node; \<^verbatim>\<open>getNode\<close> and
  \<^verbatim>\<open>getPortIndex\<close> read the two values of a side, \<^verbatim>\<open>setNodeToPort\<close> writes them.
\<close>

record Connection =
  inNode :: "NodePtr option"
  outNode :: "NodePtr option"
  inPortIndex :: CInt
  outPortIndex :: CInt

definition getNode :: "PortType \<Rightarrow> Connection \<Rightarrow> NodePtr option" where
  "getNode portType c = (case portType of In \<Rightarrow> inNode c | Out \<Rightarrow> outNode c)"

definition getPortIndex :: "PortType \<Rightarrow> Connection \<Rightarrow> CInt" where
  "getPortIndex portType c = (case portType of In \<Rightarrow> inPortIndex c | Out \<Rightarrow> outPortIndex c)"

definition setNodeToPort :: "NodePtr \<Rightarrow> PortType \<Rightarrow> CInt \<Rightarrow> Connection \<Rightarrow> Connection" where
  "setNodeToPort node portType portIndex c =
     (case portType of
        In \<Rightarrow> c\<lparr>inNode := Some node, inPortIndex := portIndex\<rparr>
      | Out \<Rightarrow> c\<lparr>outNode := Some node, outPortIndex := portIndex\<rparr>)"

text \<open>
  Modelled from the spec: the class \<^verbatim>\<open>NodeState\<close> with its type \<^verbatim>\<open>ConnectionPtrSet\<close> and
  its member functions \<^verbatim>\<open>getEntries\<close>, \<^verbatim>\<open>connections\<close> and \<^verbatim>\<open>setReaction\<close> is not in the
  source file. The port-state bookkeeping is one vector of connection sets per side, with one
  set per port. A connection set associates connection identifiers with connection pointers;
  the node only iterates over it and reads \<^verbatim>\<open>value.second\<close>, so it is the list of its
  (identifier, pointer) elements in iteration order. The state also holds the reaction to a
  connection that is being dragged, with the port type and data type of that connection.
\<close>

type_synonym ConnectionPtrSet = "(QUuid \<times> ConnectionPtr) list"

datatype ReactToConnectionState = REACTING | NOT_REACTING

record 'dt NodeState =
  inConnections :: "ConnectionPtrSet list"
  outConnections :: "ConnectionPtrSet list"
  reaction :: ReactToConnectionState
  reactingPortType :: PortType
  reactingDataType :: 'dt

text \<open>
  A point of the library, with coordinates of the floating-point type \<open>'r\<close>. The node only
  copies coordinates and never computes with them.
\<close>

record 'r QPointF =
  xp :: 'r
  yp :: 'r

text \<open>
  Modelled from the spec: the classes \<^verbatim>\<open>NodeGeometry\<close> and \<^verbatim>\<open>NodeGraphicsObject\<close> are not
  in the source file. Of the geometry the node sets the dragging position; of the graphics
  object it reads and sets the position and reads the scene transform, a value of the
  library's transform type \<open>'t\<close>.
\<close>

record 'r NodeGeometry =
  draggingPos :: "'r QPointF"

record ('r, 't) NodeGraphicsObject =
  pos :: "'r QPointF"
  sceneTransform :: 't

text \<open>The JSON values of the library that the node writes and reads.\<close>

datatype 'r QJsonValue =
    Undefined
  | JString string
  | JDouble 'r
  | JObject "(string \<times> 'r QJsonValue) list"

type_synonym 'r QJsonObject = "(string \<times> 'r QJsonValue) list"

text \<open>
  Modelled from the spec: the class \<^verbatim>\<open>NodeDataModel\<close> is not in the source file, and its
  member functions are supplied by the user of the library. The node queries it
  (\<^verbatim>\<open>nPorts\<close>, \<^verbatim>\<open>outData\<close>, \<^verbatim>\<open>save\<close>) and hands it data (\<^verbatim>\<open>setInData\<close>, \<^verbatim>\<open>restore\<close>); the
  queries are fields, the other two calls are logged.
\<close>

record ('r, 'd) NodeDataModel =
  nPorts :: "PortType \<Rightarrow> nat"
  outData :: "PortIndex \<Rightarrow> 'd"
  modelSave :: "'r QJsonObject"

datatype ('r, 'd) Call =
    DataModel_setInData 'd PortIndex
  | DataModel_restore "'r QJsonObject"
  | Geometry_recalculateSize
  | Graphics_setGeometryChanged
  | Graphics_update
  | Graphics_moveConnections
  | Connection_propagateData ConnectionPtr 'd
  | Emit_connectionRemoved ConnectionPtr

text \<open>
  The five members of the class, followed by the two parts of the surroundings that the
  member functions act on: the store of connection objects and the log of calls.
\<close>

record ('r, 'd, 'dt, 't) Node =
  uid :: QUuid
  nodeDataModel :: "('r, 'd) NodeDataModel"
  nodeState :: "'dt NodeState"
  nodeGeometry :: "'r NodeGeometry"
  nodeGraphicsObject :: "('r, 't) NodeGraphicsObject option"
  connectionObjects :: "ConnectionPtr \<Rightarrow> Connection"
  calls :: "('r, 'd) Call list"

text \<open>
  Dereferencing the null graphics pointer and indexing a vector out of its range have no
  defined behaviour in the source; in the model they end the operation with an error.
\<close>

datatype error = NullGraphicsObject | IndexOutOfRange

text \<open>
  Modelled from the spec: \<^verbatim>\<open>NodeState::getEntries\<close>, not in the source file, returns a
  reference to the vector of connection sets of one side; \<open>getEntries\<close> reads that vector and
  \<open>setEntries\<close> stands for a write through the reference.
\<close>

definition getEntries :: "PortType \<Rightarrow> ('r, 'd, 'dt, 't) Node \<Rightarrow> ConnectionPtrSet list" where
  "getEntries portType n =
     (case portType of In \<Rightarrow> inConnections (nodeState n) | Out \<Rightarrow> outConnections (nodeState n))"

definition setEntries ::
  "PortType \<Rightarrow> ConnectionPtrSet list \<Rightarrow> ('r, 'd, 'dt, 't) Node \<Rightarrow> ('r, 'd, 'dt, 't) Node" where
  "setEntries portType entries n =
     (case portType of
        In \<Rightarrow> n\<lparr>nodeState := (nodeState n)\<lparr>inConnections := entries\<rparr>\<rparr>
      | Out \<Rightarrow> n\<lparr>nodeState := (nodeState n)\<lparr>outConnections := entries\<rparr>\<rparr>)"

section \<open>Shifting the stored port indices\<close>

text \<open>
  The body of the inner loops of \<^verbatim>\<open>insertEntry\<close> and \<^verbatim>\<open>eraseEntry\<close>, which differ only
  in the offset (\<open>+ 1\<close> and \<open>- 1\<close>): for one element of a connection set, if the connection
  is attached to a node on side \<open>portType\<close>, its port index on that side is moved by the
  offset. The sum is taken in the 32-bit integer type.
\<close>

definition shiftConnection ::
  "PortType \<Rightarrow> CInt \<Rightarrow> (ConnectionPtr \<Rightarrow> Connection) \<Rightarrow> QUuid \<times> ConnectionPtr
     \<Rightarrow> (ConnectionPtr \<Rightarrow> Connection)" where
  "shiftConnection portType offset store v =
     (let connection = snd v;
          node = getNode portType (store connection)
      in case node of
           None \<Rightarrow> store
         | Some nd \<Rightarrow>
             (let newIndex = getPortIndex portType (store connection) + offset
              in store(connection := setNodeToPort nd portType newIndex (store connection))))"

text \<open>The inner loop over one connection set.\<close>

definition shiftSet ::
  "PortType \<Rightarrow> CInt \<Rightarrow> (ConnectionPtr \<Rightarrow> Connection) \<Rightarrow> ConnectionPtrSet
     \<Rightarrow> (ConnectionPtr \<Rightarrow> Connection)" where
  "shiftSet portType offset store cs = foldl (shiftConnection portType offset) store cs"

text \<open>The outer loop \<^verbatim>\<open>for (int i = start; i < entries.size(); ++i)\<close>.\<close>

function shiftFrom ::
  "PortType \<Rightarrow> CInt \<Rightarrow> ConnectionPtrSet list \<Rightarrow> nat \<Rightarrow> (ConnectionPtr \<Rightarrow> Connection)
     \<Rightarrow> (ConnectionPtr \<Rightarrow> Connection)" where
  "shiftFrom portType offset entries i store =
     (if i < length entries
      then shiftFrom portType offset entries (i + 1) (shiftSet portType offset store (entries ! i))
      else store)"
  by pat_completeness auto
termination
  by (relation "measure (\<lambda>(portType, offset, entries, i, store). length entries - i)") auto

declare shiftFrom.simps [simp del]

section \<open>Inserting and erasing a port entry\<close>

definition insertEntry ::
  "PortType \<Rightarrow> PortIndex \<Rightarrow> ('r, 'd, 'dt, 't) Node \<Rightarrow> error + ('r, 'd, 'dt, 't) Node" where
  "insertEntry portType index n =
     (let entries = getEntries portType n
      in if index < 0 \<or> int (length entries) < index then Inl IndexOutOfRange
         else
           (let entries' = take (nat index) entries @ [] # drop (nat index) entries;
                n' = setEntries portType entries' n
            in Inr (n'\<lparr>connectionObjects :=
                        shiftFrom portType 1 entries' (nat (index + 1)) (connectionObjects n')\<rparr>)))"

definition eraseEntry ::
  "PortType \<Rightarrow> PortIndex \<Rightarrow> ('r, 'd, 'dt, 't) Node \<Rightarrow> error + ('r, 'd, 'dt, 't) Node" where
  "eraseEntry portType index n =
     (let entries = getEntries portType n
      in if index < 0 \<or> int (length entries) \<le> index then Inl IndexOutOfRange
         else
           (let entries' = take (nat index) entries @ drop (nat index + 1) entries;
                n' = setEntries portType entries' n
            in Inr (n'\<lparr>connectionObjects :=
                        shiftFrom portType (- 1) entries' (nat index) (connectionObjects n')\<rparr>)))"

section \<open>Sequencing operations that can fail\<close>

definition andThen :: "error + 'a \<Rightarrow> ('a \<Rightarrow> error + 'b) \<Rightarrow> error + 'b" where
  "andThen r f = (case r of Inl e \<Rightarrow> Inl e | Inr a \<Rightarrow> f a)"

section \<open>Construction and the graphics object\<close>

text \<open>
  The constructor draws a fresh identifier and builds the node state and the geometry from
  the data model; the identifier and the two initial values are arguments here, as the
  classes that produce them are not in the source file. The graphics pointer starts as the
  null pointer. The \<^verbatim>\<open>connect\<close> calls only register the handlers below with the data
  model's signals.
\<close>

definition newNode ::
  "QUuid \<Rightarrow> ('r, 'd) NodeDataModel \<Rightarrow> 'dt NodeState \<Rightarrow> 'r NodeGeometry
     \<Rightarrow> (ConnectionPtr \<Rightarrow> Connection) \<Rightarrow> ('r, 'd, 'dt, 't) Node" where
  "newNode createdUuid dataModel initialState initialGeometry store =
     \<lparr>uid = createdUuid,
      nodeDataModel = dataModel,
      nodeState = initialState,
      nodeGeometry = initialGeometry,
      nodeGraphicsObject = None,
      connectionObjects = store,
      calls = [Geometry_recalculateSize]\<rparr>"

text \<open>The argument is an owning pointer, which may be null.\<close>

definition setGraphicsObject ::
  "('r, 't) NodeGraphicsObject option \<Rightarrow> ('r, 'd, 'dt, 't) Node \<Rightarrow> ('r, 'd, 'dt, 't) Node" where
  "setGraphicsObject graphics n =
     n\<lparr>nodeGraphicsObject := graphics, calls := calls n @ [Geometry_recalculateSize]\<rparr>"

definition updateGraphics :: "('r, 'd, 'dt, 't) Node \<Rightarrow> error + ('r, 'd, 'dt, 't) Node" where
  "updateGraphics n =
     (case nodeGraphicsObject n of
        None \<Rightarrow> Inl NullGraphicsObject
      | Some g \<Rightarrow>
          Inr (n\<lparr>calls := calls n @
                 [Graphics_setGeometryChanged, Geometry_recalculateSize,
                  Graphics_update, Graphics_moveConnections]\<rparr>))"

section \<open>Saving and restoring\<close>

text \<open>Assignment through \<^verbatim>\<open>operator[]\<close> of a JSON object: replace the value of the key, or add the key.\<close>

fun jsonSet :: "string \<Rightarrow> 'r QJsonValue \<Rightarrow> 'r QJsonObject \<Rightarrow> 'r QJsonObject" where
  "jsonSet k v [] = [(k, v)]"
| "jsonSet k v ((k', v') # rest) =
     (if k = k' then (k, v) # rest else (k', v') # jsonSet k v rest)"

text \<open>Reading a key of a constant JSON object: a missing key reads as the undefined value.\<close>

definition jsonGet :: "'r QJsonObject \<Rightarrow> string \<Rightarrow> 'r QJsonValue" where
  "jsonGet obj k = (case map_of obj k of None \<Rightarrow> Undefined | Some v \<Rightarrow> v)"

text \<open>The conversions of a JSON value return a default when the value has another type.\<close>

definition toString :: "'r QJsonValue \<Rightarrow> string" where
  "toString v = (case v of JString s \<Rightarrow> s | _ \<Rightarrow> [])"

definition toDouble :: "('r::zero) QJsonValue \<Rightarrow> 'r" where
  "toDouble v = (case v of JDouble d \<Rightarrow> d | _ \<Rightarrow> 0)"

definition toObject :: "'r QJsonValue \<Rightarrow> 'r QJsonObject" where
  "toObject v = (case v of JObject obj \<Rightarrow> obj | _ \<Rightarrow> [])"

definition jsonKeys :: "'r QJsonObject \<Rightarrow> string list" where
  "jsonKeys obj = map fst obj"

text \<open>
  \<^verbatim>\<open>QUuid::toString\<close> and the constructor of a \<^verbatim>\<open>QUuid\<close> from a string belong to the
  library; they are the arguments \<open>uuidToString\<close> and \<open>uuidFromString\<close>.
\<close>

definition save ::
  "(QUuid \<Rightarrow> string) \<Rightarrow> ('r, 'd, 'dt, 't) Node \<Rightarrow> error + 'r QJsonObject" where
  "save uuidToString n =
     (let nodeJson = [];
          nodeJson = jsonSet ''id'' (JString (uuidToString (uid n))) nodeJson;
          nodeJson = jsonSet ''model'' (JObject (modelSave (nodeDataModel n))) nodeJson;
          obj = []
      in case nodeGraphicsObject n of
           None \<Rightarrow> Inl NullGraphicsObject
         | Some g \<Rightarrow>
             (let obj = jsonSet ''x'' (JDouble (xp (pos g))) obj;
                  obj = jsonSet ''y'' (JDouble (yp (pos g))) obj;
                  nodeJson = jsonSet ''position'' (JObject obj) nodeJson
              in Inr nodeJson))"

definition restore ::
  "(string \<Rightarrow> QUuid) \<Rightarrow> ('r::zero) QJsonObject \<Rightarrow> ('r, 'd, 'dt, 't) Node
     \<Rightarrow> error + ('r, 'd, 'dt, 't) Node" where
  "restore uuidFromString json n =
     (let n1 = n\<lparr>uid := uuidFromString (toString (jsonGet json ''id''))\<rparr>;
          positionJson = toObject (jsonGet json ''position'');
          point = \<lparr>xp = toDouble (jsonGet positionJson ''x''),
                   yp = toDouble (jsonGet positionJson ''y'')\<rparr>
      in case nodeGraphicsObject n1 of
           None \<Rightarrow> Inl NullGraphicsObject
         | Some g \<Rightarrow>
             (let n2 = n1\<lparr>nodeGraphicsObject := Some (g\<lparr>pos := point\<rparr>)\<rparr>
              in Inr (n2\<lparr>calls := calls n2 @ [DataModel_restore (toObject (jsonGet json ''model''))]\<rparr>)))"

text \<open>\<^verbatim>\<open>Node::id\<close>.\<close>

definition id_of :: "('r, 'd, 'dt, 't) Node \<Rightarrow> QUuid" where
  "id_of n = uid n"

section \<open>Reacting to a possible connection\<close>

text \<open>
  Modelled from the spec: \<^verbatim>\<open>NodeGeometry::setDraggingPosition\<close> and
  \<^verbatim>\<open>NodeState::setReaction\<close>, not in the source file, store their arguments.
\<close>

definition setDraggingPosition :: "'r QPointF \<Rightarrow> 'r NodeGeometry \<Rightarrow> 'r NodeGeometry" where
  "setDraggingPosition p geom = geom\<lparr>draggingPos := p\<rparr>"

definition setReaction ::
  "ReactToConnectionState \<Rightarrow> PortType \<Rightarrow> 'dt \<Rightarrow> 'dt NodeState \<Rightarrow> 'dt NodeState" where
  "setReaction r reactingPort reactingData st =
     st\<lparr>reaction := r, reactingPortType := reactingPort, reactingDataType := reactingData\<rparr>"

text \<open>
  \<^verbatim>\<open>QTransform::inverted\<close> and \<^verbatim>\<open>QTransform::map\<close> belong to the library; they are the
  arguments \<open>inverted\<close> and \<open>mapPoint\<close>.
\<close>

definition reactToPossibleConnection ::
  "('t \<Rightarrow> 't) \<Rightarrow> ('t \<Rightarrow> 'r QPointF \<Rightarrow> 'r QPointF) \<Rightarrow> PortType \<Rightarrow> 'dt \<Rightarrow> 'r QPointF
     \<Rightarrow> ('r, 'd, 'dt, 't) Node \<Rightarrow> error + ('r, 'd, 'dt, 't) Node" where
  "reactToPossibleConnection inverted mapPoint reactingPort reactingData scenePoint n =
     (case nodeGraphicsObject n of
        None \<Rightarrow> Inl NullGraphicsObject
      | Some g \<Rightarrow>
          (let t = sceneTransform g;
               p = mapPoint (inverted t) scenePoint;
               n1 = n\<lparr>nodeGeometry := setDraggingPosition p (nodeGeometry n)\<rparr>;
               n2 = n1\<lparr>calls := calls n1 @ [Graphics_update]\<rparr>
           in Inr (n2\<lparr>nodeState :=
                       setReaction REACTING reactingPort reactingData (nodeState n2)\<rparr>)))"

text \<open>
  \<^verbatim>\<open>resetReactionToConnection\<close> calls \<^verbatim>\<open>setReaction\<close> with one argument; the values of
  the two omitted arguments come from the header and are the arguments \<open>defaultPort\<close> and
  \<open>defaultData\<close>.
\<close>

definition resetReactionToConnection ::
  "PortType \<Rightarrow> 'dt \<Rightarrow> ('r, 'd, 'dt, 't) Node \<Rightarrow> error + ('r, 'd, 'dt, 't) Node" where
  "resetReactionToConnection defaultPort defaultData n =
     (let n1 = n\<lparr>nodeState := setReaction NOT_REACTING defaultPort defaultData (nodeState n)\<rparr>
      in case nodeGraphicsObject n1 of
           None \<Rightarrow> Inl NullGraphicsObject
         | Some g \<Rightarrow> Inr (n1\<lparr>calls := calls n1 @ [Graphics_update]\<rparr>))"

section \<open>Data flow\<close>

definition propagateData ::
  "'d \<Rightarrow> PortIndex \<Rightarrow> ('r, 'd, 'dt, 't) Node \<Rightarrow> error + ('r, 'd, 'dt, 't) Node" where
  "propagateData nodeData inPort n =
     updateGraphics (n\<lparr>calls := calls n @ [DataModel_setInData nodeData inPort]\<rparr>)"

text \<open>
  Modelled from the spec: \<^verbatim>\<open>NodeState::connections(portType, index)\<close>, not in the source
  file, returns a copy of the connection set of one port.
\<close>

definition connections ::
  "PortType \<Rightarrow> PortIndex \<Rightarrow> ('r, 'd, 'dt, 't) Node \<Rightarrow> error + ConnectionPtrSet" where
  "connections portType index n =
     (let entries = getEntries portType n
      in if index < 0 \<or> int (length entries) \<le> index then Inl IndexOutOfRange
         else Inr (entries ! nat index))"

definition onDataUpdated :: "PortIndex \<Rightarrow> ('r, 'd, 'dt, 't) Node \<Rightarrow> error + ('r, 'd, 'dt, 't) Node" where
  "onDataUpdated index n =
     (let nodeData = outData (nodeDataModel n) index
      in andThen (connections Out index n)
           (\<lambda>cs. Inr (n\<lparr>calls := calls n @
                          map (\<lambda>c. Connection_propagateData (snd c) nodeData) cs\<rparr>)))"

section \<open>Ports added, moved and removed\<close>

definition onPortAdded ::
  "PortType \<Rightarrow> PortIndex \<Rightarrow> ('r, 'd, 'dt, 't) Node \<Rightarrow> error + ('r, 'd, 'dt, 't) Node" where
  "onPortAdded portType index n = andThen (insertEntry portType index n) updateGraphics"

text \<open>
  \<^verbatim>\<open>onPortMoved\<close> copies the connection set of the old port into the local variable
  \<^verbatim>\<open>connections\<close> and does not use the copy.
\<close>

definition onPortMoved ::
  "PortType \<Rightarrow> PortIndex \<Rightarrow> PortIndex \<Rightarrow> ('r, 'd, 'dt, 't) Node
     \<Rightarrow> error + ('r, 'd, 'dt, 't) Node" where
  "onPortMoved portType oldIndex newIndex n =
     (let entries = getEntries portType n
      in if oldIndex < 0 \<or> int (length entries) \<le> oldIndex then Inl IndexOutOfRange
         else
           (let connections = entries ! nat oldIndex
            in andThen (eraseEntry portType oldIndex n)
                 (\<lambda>n1. andThen (insertEntry portType newIndex n1) updateGraphics)))"

text \<open>
  The loop of \<^verbatim>\<open>onPortRemoved\<close>: \<open>i\<close> runs from the model's port count up to the size of
  the entries vector; every round collects the connections of \<^verbatim>\<open>entries[index]\<close> into a
  vector and emits \<^verbatim>\<open>connectionRemoved\<close> for each of them. The source collects them first
  because a receiver of the signal may remove connections from the entries; the receivers
  are connected outside the source file, and the model records the emissions only.
\<close>

function emitRemovedLoop ::
  "PortIndex \<Rightarrow> ConnectionPtrSet list \<Rightarrow> nat \<Rightarrow> ('r, 'd) Call list \<Rightarrow> error + ('r, 'd) Call list" where
  "emitRemovedLoop index entries i callLog =
     (if i < length entries
      then (if index < 0 \<or> int (length entries) \<le> index then Inl IndexOutOfRange
            else (let connections = map snd (entries ! nat index)
                  in emitRemovedLoop index entries (i + 1)
                       (callLog @ map Emit_connectionRemoved connections)))
      else Inr callLog)"
  by pat_completeness auto
termination
  by (relation "measure (\<lambda>(index, entries, i, callLog). length entries - i)") auto

declare emitRemovedLoop.simps [simp del]

definition onPortRemoved ::
  "PortType \<Rightarrow> PortIndex \<Rightarrow> ('r, 'd, 'dt, 't) Node \<Rightarrow> error + ('r, 'd, 'dt, 't) Node" where
  "onPortRemoved portType index n =
     andThen (emitRemovedLoop index (getEntries portType n) (nPorts (nodeDataModel n) portType) (calls n))
       (\<lambda>callLog. andThen (eraseEntry portType index (n\<lparr>calls := callLog\<rparr>)) updateGraphics)"

section \<open>Notions used to state the properties\<close>

text \<open>
  A connection whose port index on side \<open>portType\<close> has been moved by \<open>k\<close>, provided it is
  attached to a node on that side; a connection that is loose on that side is left as it is.
\<close>

definition shiftedBy :: "PortType \<Rightarrow> CInt \<Rightarrow> Connection \<Rightarrow> Connection" where
  "shiftedBy portType k c =
     (case getNode portType c of
        None \<Rightarrow> c
      | Some nd \<Rightarrow> setNodeToPort nd portType (getPortIndex portType c + k) c)"

text \<open>How many elements of the given connection sets point to the connection \<open>p\<close>.\<close>

definition registrations :: "ConnectionPtr \<Rightarrow> ConnectionPtrSet list \<Rightarrow> nat" where
  "registrations p sets = length (filter (\<lambda>v. snd v = p) (concat sets))"

text \<open>The connection \<open>p\<close> is an element of the connection set of port \<open>j\<close>.\<close>

definition registeredAt :: "ConnectionPtr \<Rightarrow> nat \<Rightarrow> ConnectionPtrSet list \<Rightarrow> bool" where
  "registeredAt p j entries = (j < length entries \<and> p \<in> set (map snd (entries ! j)))"

text \<open>No connection is an element of two connection sets of the side, or twice of one.\<close>

definition registeredOnce :: "ConnectionPtrSet list \<Rightarrow> bool" where
  "registeredOnce entries = distinct (map snd (concat entries))"

text \<open>The result of an operation is an error, or a node whose graphics pointer is not null.\<close>

definition keepsGraphicsObject :: "error + ('r, 'd, 'dt, 't) Node \<Rightarrow> bool" where
  "keepsGraphicsObject r = (case r of Inl e \<Rightarrow> True | Inr n' \<Rightarrow> nodeGraphicsObject n' \<noteq> None)"

section \<open>A concrete node\<close>

text \<open>
  Node 1 with two input ports and one output port. Connections 10 and 11 arrive at its
  input ports 0 and 1, connection 12 leaves its output port 0.
\<close>

definition exampleStore :: "ConnectionPtr \<Rightarrow> Connection" where
  "exampleStore p =
     (if p = 10 then \<lparr>inNode = Some 1, outNode = Some 2, inPortIndex = 0, outPortIndex = 0\<rparr>
      else if p = 11 then \<lparr>inNode = Some 1, outNode = Some 3, inPortIndex = 1, outPortIndex = 2\<rparr>
      else if p = 12 then \<lparr>inNode = Some 4, outNode = Some 1, inPortIndex = 0, outPortIndex = 0\<rparr>
      else \<lparr>inNode = None, outNode = None, inPortIndex = - 1, outPortIndex = - 1\<rparr>)"

definition exampleGraphics :: "(real, real \<times> real) NodeGraphicsObject" where
  "exampleGraphics = \<lparr>pos = \<lparr>xp = 3, yp = 4\<rparr>, sceneTransform = (3, 4)\<rparr>"

definition exampleNode :: "(real, string, string, real \<times> real) Node" where
  "exampleNode =
     \<lparr>uid = 3,
      nodeDataModel =
        \<lparr>nPorts = (\<lambda>portType. case portType of In \<Rightarrow> 2 | Out \<Rightarrow> 1),
         outData = (\<lambda>i. ''value''),
         modelSave = [(''name'', JString ''adder'')]\<rparr>,
      nodeState =
        \<lparr>inConnections = [[(100, 10)], [(101, 11)]],
         outConnections = [[(102, 12)]],
         reaction = NOT_REACTING,
         reactingPortType = In,
         reactingDataType = ''''\<rparr>,
      nodeGeometry = \<lparr>draggingPos = \<lparr>xp = 0, yp = 0\<rparr>\<rparr>,
      nodeGraphicsObject = Some exampleGraphics,
      connectionObjects = exampleStore,
      calls = []\<rparr>"

text \<open>
  The example node after its data model has given up its output port: the model reports no
  output port, the node still holds the entry of output port 0.
\<close>

definition portRemovedNode :: "(real, string, string, real \<times> real) Node" where
  "portRemovedNode =
     exampleNode\<lparr>nodeDataModel := (nodeDataModel exampleNode)\<lparr>nPorts := \<lambda>portType. 0\<rparr>\<rparr>"

text \<open>
  Stand-ins for the library functions that the node calls: a textual form of identifiers
  that can be read back, and scene transforms that translate by a vector.
\<close>

definition exampleUuidToString :: "QUuid \<Rightarrow> string" where
  "exampleUuidToString u = replicate (unat u) CHR ''u''"

definition exampleUuidFromString :: "string \<Rightarrow> QUuid" where
  "exampleUuidFromString s = of_nat (length s)"

definition exampleInverted :: "real \<times> real \<Rightarrow> real \<times> real" where
  "exampleInverted t = (- fst t, - snd t)"

definition exampleMap :: "real \<times> real \<Rightarrow> real QPointF \<Rightarrow> real QPointF" where
  "exampleMap t p = \<lparr>xp = xp p + fst t, yp = yp p + snd t\<rparr>"

text \<open>The node as the constructor leaves it, before a graphics object is set.\<close>

definition freshNode :: "(real, string, string, real \<times> real) Node" where
  "freshNode =
     newNode 3 (nodeDataModel exampleNode) (nodeState exampleNode) (nodeGeometry exampleNode)
       exampleStore"

section \<open>Facts about the shifting loops\<close>

lemma shiftedBy_zero: "shiftedBy portType 0 c = c"
  by (cases portType) (auto simp: shiftedBy_def getNode_def getPortIndex_def setNodeToPort_def split: option.splits)

lemma shiftedBy_twice: "shiftedBy portType a (shiftedBy portType b c) = shiftedBy portType (b + a) c"
  by (cases portType) (auto simp: shiftedBy_def getNode_def getPortIndex_def setNodeToPort_def split: option.splits)

lemma shiftConnection_shiftedBy:
  "shiftConnection portType k store v = store(snd v := shiftedBy portType k (store (snd v)))"
  by (auto simp: shiftConnection_def shiftedBy_def Let_def split: option.splits)

text \<open>
  At the two ends of the 32-bit range the shifted index wraps around, as the sum in the
  source does.
\<close>

lemma shiftConnection_wraps:
  "sint (getPortIndex In
      (shiftConnection In 1
         (\<lambda>p. \<lparr>inNode = Some 1, outNode = None, inPortIndex = 2147483647, outPortIndex = 0\<rparr>)
         (100, 10) 10)) = - 2147483648
   \<and> sint (getPortIndex In
      (shiftConnection In (- 1)
         (\<lambda>p. \<lparr>inNode = Some 1, outNode = None, inPortIndex = - 2147483648, outPortIndex = 0\<rparr>)
         (100, 10) 10)) = 2147483647"
  by (simp add: shiftConnection_def getNode_def getPortIndex_def setNodeToPort_def Let_def)

lemma shiftSet_shiftedBy:
  "shiftSet portType k store cs p =
     shiftedBy portType (k * of_nat (length (filter (\<lambda>v. snd v = p) cs))) (store p)"
  unfolding shiftSet_def
proof (induction cs arbitrary: store)
  case Nil
  show ?case by (simp add: shiftedBy_zero)
next
  case (Cons v cs)
  have "foldl (shiftConnection portType k) store (v # cs) p =
        foldl (shiftConnection portType k) (shiftConnection portType k store v) cs p"
    by simp
  also have "\<dots> = shiftedBy portType (k * of_nat (length (filter (\<lambda>v. snd v = p) cs)))
                     (shiftConnection portType k store v p)"
    by (rule Cons.IH)
  also have "\<dots> = shiftedBy portType (k * of_nat (length (filter (\<lambda>v. snd v = p) (v # cs)))) (store p)"
    by (simp add: shiftConnection_shiftedBy shiftedBy_twice algebra_simps)
  finally show ?case .
qed

lemma shiftFrom_shiftedBy:
  "shiftFrom portType k entries i store p =
     shiftedBy portType (k * of_nat (registrations p (drop i entries))) (store p)"
proof (induction portType k entries i store rule: shiftFrom.induct)
  case (1 portType k entries i store)
  show ?case
  proof (cases "i < length entries")
    case True
    then have d: "drop i entries = entries ! i # drop (i + 1) entries"
      by (simp add: Cons_nth_drop_Suc)
    show ?thesis
    proof -
      have "shiftFrom portType k entries i store p =
            shiftFrom portType k entries (i + 1) (shiftSet portType k store (entries ! i)) p"
        using True by (subst shiftFrom.simps) simp
      also have "\<dots> = shiftedBy portType (k * of_nat (registrations p (drop (i + 1) entries)))
                         (shiftSet portType k store (entries ! i) p)"
        by (rule "1.IH" [OF True])
      also have "\<dots> = shiftedBy portType (k * of_nat (registrations p (drop i entries))) (store p)"
        by (simp add: d registrations_def shiftSet_shiftedBy shiftedBy_twice algebra_simps)
      finally show ?thesis .
    qed
  next
    case False
    then show ?thesis
      by (subst shiftFrom.simps) (simp add: registrations_def shiftedBy_zero)
  qed
qed

lemma getEntries_setEntries [simp]: "getEntries portType (setEntries portType es n) = es"
  by (cases portType) (simp_all add: getEntries_def setEntries_def)

lemma connectionObjects_setEntries [simp]:
  "connectionObjects (setEntries portType es n) = connectionObjects n"
  by (cases portType) (simp_all add: setEntries_def)

lemma getEntries_connectionObjects_update [simp]:
  "getEntries portType (n\<lparr>connectionObjects := f\<rparr>) = getEntries portType n"
  by (cases portType) (simp_all add: getEntries_def)

lemma getPortIndex_shiftedBy:
  "getNode portType c \<noteq> None \<Longrightarrow> getPortIndex portType (shiftedBy portType k c) = getPortIndex portType c + k"
  by (cases portType) (auto simp: shiftedBy_def getNode_def getPortIndex_def setNodeToPort_def)

lemma shiftedBy_loose: "getNode portType c = None \<Longrightarrow> shiftedBy portType k c = c"
  by (simp add: shiftedBy_def)

lemma registrations_once:
  assumes "registeredOnce entries" and "i \<le> j" and "registeredAt p j entries"
  shows "registrations p (drop i entries) = 1"
proof -
  have j: "j < length entries" and p: "p \<in> set (map snd (entries ! j))"
    using assms(3) by (simp_all add: registeredAt_def)
  have "concat entries = concat (take i entries) @ concat (drop i entries)"
    by (metis append_take_drop_id concat_append)
  then have d: "distinct (map snd (concat (drop i entries)))"
    using assms(1) unfolding registeredOnce_def by (metis distinct_append map_append)
  have "drop i entries ! (j - i) = entries ! j" and "j - i < length (drop i entries)"
    using j assms(2) by simp_all
  then have "entries ! j \<in> set (drop i entries)"
    by (metis nth_mem)
  then have m: "p \<in> set (map snd (concat (drop i entries)))"
    using p by auto
  have "registrations p (drop i entries) =
        length (filter (\<lambda>x. x = p) (map snd (concat (drop i entries))))"
    by (simp add: registrations_def filter_map comp_def)
  also have "\<dots> = card ({x. x = p} \<inter> set (map snd (concat (drop i entries))))"
    using d by (rule distinct_length_filter)
  also have "{x. x = p} \<inter> set (map snd (concat (drop i entries))) = {p}"
    using m by auto
  finally show ?thesis
    by simp
qed

lemma registrations_once_behind:
  assumes "registeredOnce entries" and "i < j" and "registeredAt p j entries"
  shows "registrations p (drop (Suc i) entries) = 1"
  using registrations_once [OF assms(1) _ assms(3), of "Suc i"] assms(2) by simp

lemma sint_next:
  fixes x :: CInt
  assumes "sint x < 2147483647"
  shows "sint (x + 1) = sint x + 1"
proof -
  have "- (2 ^ 31) \<le> sint x"
    using sint_ge [of x] by simp
  then show ?thesis
    using assms by (simp add: sint_word_ariths signed_take_bit_int_eq_self)
qed

lemma sint_previous:
  fixes x :: CInt
  assumes "- 2147483648 < sint x"
  shows "sint (x - 1) = sint x - 1"
proof -
  have "sint x < 2 ^ 31"
    using sint_lt [of x] by simp
  then show ?thesis
    using assms by (simp add: sint_word_ariths signed_take_bit_int_eq_self)
qed

lemma insertEntry_result:
  assumes "0 \<le> i" and "i \<le> int (length (getEntries portType n))"
  shows "insertEntry portType i n =
           Inr ((setEntries portType
                   (take (nat i) (getEntries portType n) @ [] # drop (nat i) (getEntries portType n)) n)
                \<lparr>connectionObjects := \<lambda>p. shiftedBy portType
                     (of_nat (registrations p (drop (nat i) (getEntries portType n))))
                     (connectionObjects n p)\<rparr>)"
proof -
  let ?es = "getEntries portType n"
  let ?es' = "take (nat i) ?es @ [] # drop (nat i) ?es"
  have len: "length (take (nat i) ?es) = nat i"
    using assms by simp
  have "drop (nat (i + 1)) ?es' = drop (nat i) ?es"
    using assms len by (simp add: nat_add_distrib)
  then have "shiftFrom portType 1 ?es' (nat (i + 1)) (connectionObjects n) =
             (\<lambda>p. shiftedBy portType (of_nat (registrations p (drop (nat i) ?es))) (connectionObjects n p))"
    by (simp add: fun_eq_iff shiftFrom_shiftedBy)
  then show ?thesis
    using assms by (simp add: insertEntry_def Let_def)
qed

lemma eraseEntry_result:
  assumes "0 \<le> i" and "i < int (length (getEntries portType n))"
  shows "eraseEntry portType i n =
           Inr ((setEntries portType
                   (take (nat i) (getEntries portType n) @ drop (nat i + 1) (getEntries portType n)) n)
                \<lparr>connectionObjects := \<lambda>p. shiftedBy portType
                     (- of_nat (registrations p (drop (nat i + 1) (getEntries portType n))))
                     (connectionObjects n p)\<rparr>)"
proof -
  let ?es = "getEntries portType n"
  let ?es' = "take (nat i) ?es @ drop (nat i + 1) ?es"
  have len: "length (take (nat i) ?es) = nat i"
    using assms by simp
  have "drop (nat i) ?es' = drop (nat i + 1) ?es"
    using assms len by simp
  then have "shiftFrom portType (- 1) ?es' (nat i) (connectionObjects n) =
             (\<lambda>p. shiftedBy portType (- of_nat (registrations p (drop (nat i + 1) ?es))) (connectionObjects n p))"
    by (simp add: fun_eq_iff shiftFrom_shiftedBy)
  then show ?thesis
    using assms by (simp add: eraseEntry_def Let_def)
qed


section \<open>Inserting an entry\<close>

text \<open>
  Claim C2. For every side \<open>portType\<close> and every index \<open>i\<close> with
  \<open>0 \<le> i \<le> length entries\<close>, \<open>insertEntry portType i\<close> (the first step of \<open>onPortAdded\<close>)
  succeeds and puts an empty connection set at position \<open>i\<close>, the sets before and after it
  keeping their order, so the entries vector grows by exactly one. A connection set is keyed
  by the connection's identifier and a connection stores one port index per side, so the
  bookkeeping of a side registers a connection at one port, once. On such entries, every
  connection that was registered at a former position \<open>j \<ge> i\<close> and is attached to a node on
  side \<open>portType\<close> has its stored port index on that side replaced by its old index plus
  one. The sum is the one the node computes, in the 32-bit integer type; for every old index
  below the largest value of that type it is the next integer. A connection that is loose on
  that side stays as it is.
\<close>

theorem insertEntry_grows_and_shifts:
  assumes "0 \<le> i" and "i \<le> int (length (getEntries portType n))"
  shows "\<exists>n'. insertEntry portType i n = Inr n'
           \<and> onPortAdded portType i n = updateGraphics n'
           \<and> getEntries portType n' =
               take (nat i) (getEntries portType n) @ [] # drop (nat i) (getEntries portType n)
           \<and> length (getEntries portType n') = length (getEntries portType n) + 1
           \<and> (registeredOnce (getEntries portType n) \<longrightarrow>
                (\<forall>p j. nat i \<le> j \<and> registeredAt p j (getEntries portType n)
                      \<and> getNode portType (connectionObjects n p) \<noteq> None \<longrightarrow>
                    getPortIndex portType (connectionObjects n' p) =
                      getPortIndex portType (connectionObjects n p) + 1
                    \<and> (sint (getPortIndex portType (connectionObjects n p)) < 2147483647 \<longrightarrow>
                         sint (getPortIndex portType (connectionObjects n' p)) =
                           sint (getPortIndex portType (connectionObjects n p)) + 1)))
           \<and> (\<forall>p. getNode portType (connectionObjects n p) = None \<longrightarrow>
                  connectionObjects n' p = connectionObjects n p)"
  by (auto simp: insertEntry_result [OF assms] onPortAdded_def andThen_def
      getPortIndex_shiftedBy shiftedBy_loose registrations_once sint_next)

theorem insertEntry_grows_and_shifts_witness:
  "(0::int) \<le> 1 \<and> 1 \<le> int (length (getEntries In exampleNode))
   \<and> getEntries In (projr (insertEntry In 1 exampleNode)) = [[(100, 10)], [], [(101, 11)]]
   \<and> registeredOnce (getEntries In exampleNode)
   \<and> registeredAt 11 1 (getEntries In exampleNode)
   \<and> getNode In (connectionObjects exampleNode 11) = Some 1
   \<and> getPortIndex In (connectionObjects exampleNode 11) = 1
   \<and> sint (getPortIndex In (connectionObjects exampleNode 11)) < 2147483647
   \<and> getPortIndex In (connectionObjects (projr (insertEntry In 1 exampleNode)) 11) = 2
   \<and> sint (getPortIndex In (connectionObjects (projr (insertEntry In 1 exampleNode)) 11)) = 2
   \<and> getNode In (connectionObjects exampleNode 10) = Some 1
   \<and> connectionObjects (projr (insertEntry In 1 exampleNode)) 10 = connectionObjects exampleNode 10
   \<and> getNode In (connectionObjects exampleNode 13) = None
   \<and> connectionObjects (projr (insertEntry In 1 exampleNode)) 13 = connectionObjects exampleNode 13"
proof -
  have es: "getEntries In exampleNode = [[(100, 10)], [(101, 11)]]"
    by (simp add: getEntries_def exampleNode_def)
  have h1: "(0::int) \<le> 1"
    by simp
  have h2: "(1::int) \<le> int (length (getEntries In exampleNode))"
    by (simp add: es)
  have c11: "getNode In (connectionObjects exampleNode 11) = Some 1
             \<and> getPortIndex In (connectionObjects exampleNode 11) = 1"
    by (simp add: getNode_def getPortIndex_def exampleNode_def exampleStore_def)
  have c10: "getNode In (connectionObjects exampleNode 10) = Some 1"
    by (simp add: getNode_def exampleNode_def exampleStore_def)
  have c13: "getNode In (connectionObjects exampleNode 13) = None"
    by (simp add: getNode_def exampleNode_def exampleStore_def)
  have s11: "sint (getPortIndex In (connectionObjects exampleNode 11)) < 2147483647"
    by (simp add: c11)
  have reg: "registeredAt 11 1 (getEntries In exampleNode)"
    by (simp add: es registeredAt_def)
  have once: "registeredOnce (getEntries In exampleNode)"
    by (simp add: es registeredOnce_def)
  from insertEntry_grows_and_shifts [OF h1 h2] obtain n' where
    ins: "insertEntry In 1 exampleNode = Inr n'" and
    ent: "getEntries In n' =
            take (nat 1) (getEntries In exampleNode) @ [] # drop (nat 1) (getEntries In exampleNode)" and
    idx: "registeredOnce (getEntries In exampleNode) \<longrightarrow>
            (\<forall>p j. nat 1 \<le> j \<and> registeredAt p j (getEntries In exampleNode)
                  \<and> getNode In (connectionObjects exampleNode p) \<noteq> None \<longrightarrow>
                getPortIndex In (connectionObjects n' p) =
                  getPortIndex In (connectionObjects exampleNode p) + 1
                \<and> (sint (getPortIndex In (connectionObjects exampleNode p)) < 2147483647 \<longrightarrow>
                     sint (getPortIndex In (connectionObjects n' p)) =
                       sint (getPortIndex In (connectionObjects exampleNode p)) + 1))" and
    loose: "\<forall>p. getNode In (connectionObjects exampleNode p) = None \<longrightarrow>
              connectionObjects n' p = connectionObjects exampleNode p"
    by blast
  have "nat 1 \<le> (1::nat) \<and> registeredAt 11 1 (getEntries In exampleNode)
        \<and> getNode In (connectionObjects exampleNode 11) \<noteq> None"
    using reg c11 by simp
  with idx once have
    "getPortIndex In (connectionObjects n' 11) = getPortIndex In (connectionObjects exampleNode 11) + 1
     \<and> (sint (getPortIndex In (connectionObjects exampleNode 11)) < 2147483647 \<longrightarrow>
          sint (getPortIndex In (connectionObjects n' 11)) =
            sint (getPortIndex In (connectionObjects exampleNode 11)) + 1)"
    by blast
  then have i11: "getPortIndex In (connectionObjects n' 11) = 2
                  \<and> sint (getPortIndex In (connectionObjects n' 11)) = 2"
    using c11 s11 by simp
  have l13: "connectionObjects n' 13 = connectionObjects exampleNode 13"
    using loose c13 by blast
  have e': "getEntries In n' = [[(100, 10)], [], [(101, 11)]]"
    using ent by (simp add: es)
  have k10: "connectionObjects (projr (insertEntry In 1 exampleNode)) 10 = connectionObjects exampleNode 10"
    by (simp add: exampleNode_def exampleStore_def getEntries_def setEntries_def getNode_def
        getPortIndex_def insertEntry_def shiftFrom.simps shiftSet_def shiftConnection_def
        setNodeToPort_def Let_def)
  show ?thesis
    using ins h2 reg once c11 s11 i11 c10 k10 c13 l13 e' by simp
qed

section \<open>Erasing an entry\<close>

text \<open>
  Claim C3. For every side \<open>portType\<close> and every index \<open>i\<close> with
  \<open>0 \<le> i < length entries\<close>, \<open>eraseEntry portType i\<close> succeeds and removes the connection
  set at position \<open>i\<close>, the other sets keeping their order, so the entries vector shrinks by
  exactly one. On entries that register every connection at one port, once, every connection
  that was registered at a former position \<open>j > i\<close> and is attached to a node on side
  \<open>portType\<close> has its stored port index on that side replaced by its old index minus one.
  The difference is the one the node computes, in the 32-bit integer type; for every old
  index above the least value of that type it is the preceding integer. A connection that is
  loose on that side stays as it is.
\<close>

theorem eraseEntry_shrinks_and_shifts:
  assumes "0 \<le> i" and "i < int (length (getEntries portType n))"
  shows "\<exists>n'. eraseEntry portType i n = Inr n'
           \<and> getEntries portType n' =
               take (nat i) (getEntries portType n) @ drop (nat i + 1) (getEntries portType n)
           \<and> length (getEntries portType n') + 1 = length (getEntries portType n)
           \<and> (registeredOnce (getEntries portType n) \<longrightarrow>
                (\<forall>p j. nat i < j \<and> registeredAt p j (getEntries portType n)
                      \<and> getNode portType (connectionObjects n p) \<noteq> None \<longrightarrow>
                    getPortIndex portType (connectionObjects n' p) =
                      getPortIndex portType (connectionObjects n p) - 1
                    \<and> (- 2147483648 < sint (getPortIndex portType (connectionObjects n p)) \<longrightarrow>
                         sint (getPortIndex portType (connectionObjects n' p)) =
                           sint (getPortIndex portType (connectionObjects n p)) - 1)))
           \<and> (\<forall>p. getNode portType (connectionObjects n p) = None \<longrightarrow>
                  connectionObjects n' p = connectionObjects n p)"
  using assms
  by (auto simp: eraseEntry_result [OF assms] getPortIndex_shiftedBy shiftedBy_loose
      registrations_once_behind sint_previous)

theorem eraseEntry_shrinks_and_shifts_witness:
  "(0::int) \<le> 0 \<and> 0 < int (length (getEntries In exampleNode))
   \<and> getEntries In (projr (eraseEntry In 0 exampleNode)) = [[(101, 11)]]
   \<and> registeredOnce (getEntries In exampleNode)
   \<and> registeredAt 11 1 (getEntries In exampleNode)
   \<and> getNode In (connectionObjects exampleNode 11) = Some 1
   \<and> getPortIndex In (connectionObjects exampleNode 11) = 1
   \<and> - 2147483648 < sint (getPortIndex In (connectionObjects exampleNode 11))
   \<and> getPortIndex In (connectionObjects (projr (eraseEntry In 0 exampleNode)) 11) = 0
   \<and> sint (getPortIndex In (connectionObjects (projr (eraseEntry In 0 exampleNode)) 11)) = 0
   \<and> getNode In (connectionObjects exampleNode 10) = Some 1
   \<and> connectionObjects (projr (eraseEntry In 0 exampleNode)) 10 = connectionObjects exampleNode 10
   \<and> getNode In (connectionObjects exampleNode 13) = None
   \<and> connectionObjects (projr (eraseEntry In 0 exampleNode)) 13 = connectionObjects exampleNode 13"
proof -
  have es: "getEntries In exampleNode = [[(100, 10)], [(101, 11)]]"
    by (simp add: getEntries_def exampleNode_def)
  have h1: "(0::int) \<le> 0"
    by simp
  have h2: "(0::int) < int (length (getEntries In exampleNode))"
    by (simp add: es)
  have c11: "getNode In (connectionObjects exampleNode 11) = Some 1
             \<and> getPortIndex In (connectionObjects exampleNode 11) = 1"
    by (simp add: getNode_def getPortIndex_def exampleNode_def exampleStore_def)
  have c10: "getNode In (connectionObjects exampleNode 10) = Some 1"
    by (simp add: getNode_def exampleNode_def exampleStore_def)
  have c13: "getNode In (connectionObjects exampleNode 13) = None"
    by (simp add: getNode_def exampleNode_def exampleStore_def)
  have s11: "- 2147483648 < sint (getPortIndex In (connectionObjects exampleNode 11))"
    by (simp add: c11)
  have reg: "registeredAt 11 1 (getEntries In exampleNode)"
    by (simp add: es registeredAt_def)
  have once: "registeredOnce (getEntries In exampleNode)"
    by (simp add: es registeredOnce_def)
  from eraseEntry_shrinks_and_shifts [OF h1 h2] obtain n' where
    ers: "eraseEntry In 0 exampleNode = Inr n'" and
    ent: "getEntries In n' =
            take (nat 0) (getEntries In exampleNode) @ drop (nat 0 + 1) (getEntries In exampleNode)" and
    idx: "registeredOnce (getEntries In exampleNode) \<longrightarrow>
            (\<forall>p j. nat 0 < j \<and> registeredAt p j (getEntries In exampleNode)
                  \<and> getNode In (connectionObjects exampleNode p) \<noteq> None \<longrightarrow>
                getPortIndex In (connectionObjects n' p) =
                  getPortIndex In (connectionObjects exampleNode p) - 1
                \<and> (- 2147483648 < sint (getPortIndex In (connectionObjects exampleNode p)) \<longrightarrow>
                     sint (getPortIndex In (connectionObjects n' p)) =
                       sint (getPortIndex In (connectionObjects exampleNode p)) - 1))" and
    loose: "\<forall>p. getNode In (connectionObjects exampleNode p) = None \<longrightarrow>
              connectionObjects n' p = connectionObjects exampleNode p"
    by blast
  have "nat 0 < (1::nat) \<and> registeredAt 11 1 (getEntries In exampleNode)
        \<and> getNode In (connectionObjects exampleNode 11) \<noteq> None"
    using reg c11 by simp
  with idx once have
    "getPortIndex In (connectionObjects n' 11) = getPortIndex In (connectionObjects exampleNode 11) - 1
     \<and> (- 2147483648 < sint (getPortIndex In (connectionObjects exampleNode 11)) \<longrightarrow>
          sint (getPortIndex In (connectionObjects n' 11)) =
            sint (getPortIndex In (connectionObjects exampleNode 11)) - 1)"
    by blast
  then have i11: "getPortIndex In (connectionObjects n' 11) = 0
                  \<and> sint (getPortIndex In (connectionObjects n' 11)) = 0"
    using c11 s11 by simp
  have l13: "connectionObjects n' 13 = connectionObjects exampleNode 13"
    using loose c13 by blast
  have e': "getEntries In n' = [[(101, 11)]]"
    using ent by (simp add: es)
  have k10: "connectionObjects (projr (eraseEntry In 0 exampleNode)) 10 = connectionObjects exampleNode 10"
    by (simp add: exampleNode_def exampleStore_def getEntries_def setEntries_def getNode_def
        getPortIndex_def eraseEntry_def shiftFrom.simps shiftSet_def shiftConnection_def
        setNodeToPort_def Let_def)
  show ?thesis
    using ers h2 reg once c11 s11 i11 c10 k10 c13 l13 e' by simp
qed

section \<open>Inserting and then erasing\<close>

text \<open>
  Claim C10. For every side \<open>portType\<close> and every index \<open>i\<close> with \<open>0 \<le> i \<le> length entries\<close>
  (which includes every index in the bounds of the vector), \<open>insertEntry portType i\<close>
  followed at once by \<open>eraseEntry portType i\<close> gives back the node the pair of calls started
  from: both succeed, and the entries vector and every connection object, hence the stored
  port index of every connection attached on side \<open>portType\<close>, have the values they had
  before.
\<close>

theorem insert_then_erase_roundtrip:
  assumes "0 \<le> i" and "i \<le> int (length (getEntries portType n))"
  shows "\<exists>n'. insertEntry portType i n = Inr n' \<and> eraseEntry portType i n' = Inr n"
proof -
  let ?es = "getEntries portType n"
  let ?n' = "(setEntries portType (take (nat i) ?es @ [] # drop (nat i) ?es) n)
                \<lparr>connectionObjects := \<lambda>p. shiftedBy portType
                     (of_nat (registrations p (drop (nat i) ?es))) (connectionObjects n p)\<rparr>"
  have ins: "insertEntry portType i n = Inr ?n'"
    by (rule insertEntry_result [OF assms])
  have len: "length (take (nat i) ?es) = nat i"
    using assms by simp
  have es': "getEntries portType ?n' = take (nat i) ?es @ [] # drop (nat i) ?es"
    by simp
  have b: "i < int (length (getEntries portType ?n'))"
    using assms by (simp add: es')
  have t: "take (nat i) (getEntries portType ?n') = take (nat i) ?es"
    using len by (simp add: es')
  have d: "drop (nat i + 1) (getEntries portType ?n') = drop (nat i) ?es"
    using len by (simp add: es')
  have e: "eraseEntry portType i ?n' =
             Inr ((setEntries portType ?es ?n')
                  \<lparr>connectionObjects := \<lambda>p. shiftedBy portType
                       (- of_nat (registrations p (drop (nat i) ?es))) (connectionObjects ?n' p)\<rparr>)"
    by (subst eraseEntry_result [OF assms(1) b]) (simp only: t d append_take_drop_id)
  have "(setEntries portType ?es ?n')
          \<lparr>connectionObjects := \<lambda>p. shiftedBy portType
               (- of_nat (registrations p (drop (nat i) ?es))) (connectionObjects ?n' p)\<rparr> = n"
    by (cases portType) (simp_all add: setEntries_def getEntries_def shiftedBy_twice shiftedBy_zero)
  with e have "eraseEntry portType i ?n' = Inr n"
    by simp
  with ins show ?thesis by blast
qed

theorem insert_then_erase_roundtrip_witness:
  "(0::int) \<le> 0 \<and> 0 \<le> int (length (getEntries In exampleNode))
   \<and> \<not> isl (insertEntry In 0 exampleNode)
   \<and> eraseEntry In 0 (projr (insertEntry In 0 exampleNode)) = Inr exampleNode"
proof -
  have h1: "(0::int) \<le> 0"
    by simp
  have h2: "(0::int) \<le> int (length (getEntries In exampleNode))"
    by simp
  from insert_then_erase_roundtrip [OF h1 h2] obtain n' where
    "insertEntry In 0 exampleNode = Inr n'" and "eraseEntry In 0 n' = Inr exampleNode"
    by blast
  then show ?thesis
    by simp
qed

section \<open>Facts about the members that the operations leave alone\<close>

lemma setEntries_other_fields [simp]:
  "nodeGraphicsObject (setEntries portType es n) = nodeGraphicsObject n"
  "calls (setEntries portType es n) = calls n"
  "uid (setEntries portType es n) = uid n"
  by (cases portType; simp add: setEntries_def)+

lemma getEntries_calls_update [simp]:
  "getEntries portType (n\<lparr>calls := cs\<rparr>) = getEntries portType n"
  by (cases portType) (simp_all add: getEntries_def)

lemma insertEntry_keeps:
  assumes "insertEntry portType i n = Inr n'"
  shows "nodeGraphicsObject n' = nodeGraphicsObject n \<and> calls n' = calls n \<and> uid n' = uid n"
  using assms by (auto simp: insertEntry_def Let_def split: if_splits)

lemma eraseEntry_keeps:
  assumes "eraseEntry portType i n = Inr n'"
  shows "nodeGraphicsObject n' = nodeGraphicsObject n \<and> calls n' = calls n \<and> uid n' = uid n"
  using assms by (auto simp: eraseEntry_def Let_def split: if_splits)

lemma eraseEntry_shrinks_entries:
  assumes "0 \<le> i" and "i < int (length (getEntries portType n))"
  shows "\<exists>n'. eraseEntry portType i n = Inr n'
           \<and> getEntries portType n' =
               take (nat i) (getEntries portType n) @ drop (nat i + 1) (getEntries portType n)"
  by (simp add: eraseEntry_result [OF assms])

lemma insertEntry_grows_entries:
  assumes "0 \<le> i" and "i \<le> int (length (getEntries portType n))"
  shows "\<exists>n'. insertEntry portType i n = Inr n'
           \<and> getEntries portType n' =
               take (nat i) (getEntries portType n) @ [] # drop (nat i) (getEntries portType n)"
  by (simp add: insertEntry_result [OF assms])

lemma updateGraphics_null: "nodeGraphicsObject n = None \<Longrightarrow> updateGraphics n = Inl NullGraphicsObject"
  by (simp add: updateGraphics_def)

lemma updateGraphics_set:
  "nodeGraphicsObject n = Some g \<Longrightarrow>
   updateGraphics n =
     Inr (n\<lparr>calls := calls n @
            [Graphics_setGeometryChanged, Geometry_recalculateSize,
             Graphics_update, Graphics_moveConnections]\<rparr>)"
  by (simp add: updateGraphics_def)

section \<open>Data leaving the node\<close>

text \<open>
  Claim C5. For every output-port index \<open>i\<close> in the bounds of the output entries,
  \<open>onDataUpdated i\<close> succeeds, and all it does is to hand the value \<open>outData i\<close> of the data
  model to the connections in the connection set of output port \<open>i\<close>, one call of
  \<open>propagateData\<close> per element of the set, in the order of the set. No other connection
  receives a call, and the node, its entries and the connection objects stay as they are.
\<close>

theorem onDataUpdated_propagates:
  assumes "0 \<le> i" and "i < int (length (getEntries Out n))"
  shows "onDataUpdated i n =
           Inr (n\<lparr>calls := calls n @
                  map (\<lambda>c. Connection_propagateData (snd c) (outData (nodeDataModel n) i))
                    (getEntries Out n ! nat i)\<rparr>)"
  using assms by (simp add: onDataUpdated_def connections_def andThen_def Let_def)

theorem onDataUpdated_propagates_witness:
  "(0::int) \<le> 0 \<and> 0 < int (length (getEntries Out exampleNode))
   \<and> onDataUpdated 0 exampleNode =
       Inr (exampleNode\<lparr>calls := [Connection_propagateData 12 ''value'']\<rparr>)"
proof -
  have es: "getEntries Out exampleNode = [[(102, 12)]]"
    by (simp add: getEntries_def exampleNode_def)
  have h1: "(0::int) \<le> 0"
    by simp
  have h2: "(0::int) < int (length (getEntries Out exampleNode))"
    by (simp add: es)
  have "calls exampleNode = [] \<and> outData (nodeDataModel exampleNode) 0 = ''value''"
    by (simp add: exampleNode_def)
  then show ?thesis
    using onDataUpdated_propagates [OF h1 h2] h2 by (simp add: es)
qed

section \<open>Data entering the node\<close>

text \<open>
  Claim C7. For every data value \<open>d\<close> and input-port index \<open>i\<close>, on a node whose graphics
  object is set, \<open>propagateData d i\<close> succeeds and makes exactly these calls, in this order:
  \<open>setInData d i\<close> on the data model, then \<open>setGeometryChanged\<close> on the graphics object,
  \<open>recalculateSize\<close> on the geometry, \<open>update\<close> on the graphics object and
  \<open>moveConnections\<close> on the graphics object. Nothing else of the node changes.
\<close>

theorem propagateData_forwards_then_updates:
  assumes "nodeGraphicsObject n = Some g"
  shows "propagateData d i n =
           Inr (n\<lparr>calls := calls n @
                  [DataModel_setInData d i, Graphics_setGeometryChanged,
                   Geometry_recalculateSize, Graphics_update, Graphics_moveConnections]\<rparr>)"
  using assms by (simp add: propagateData_def updateGraphics_def)

theorem propagateData_forwards_then_updates_witness:
  "nodeGraphicsObject exampleNode = Some exampleGraphics
   \<and> propagateData ''seven'' 1 exampleNode =
       Inr (exampleNode\<lparr>calls :=
              [DataModel_setInData ''seven'' 1, Graphics_setGeometryChanged,
               Geometry_recalculateSize, Graphics_update, Graphics_moveConnections]\<rparr>)"
proof -
  have g: "nodeGraphicsObject exampleNode = Some exampleGraphics"
    by (simp add: exampleNode_def)
  have "calls exampleNode = []"
    by (simp add: exampleNode_def)
  then show ?thesis
    using propagateData_forwards_then_updates [OF g, of "''seven''" 1] g by simp
qed

section \<open>Removing a port\<close>

text \<open>
  The loop makes one round for every entry beyond the model's port count, and every round
  emits the signal for each element of the connection set of the removed port.
\<close>

lemma emitRemovedLoop_rounds:
  "0 \<le> index \<Longrightarrow> index < int (length entries) \<Longrightarrow>
   emitRemovedLoop index entries k callLog =
     Inr (callLog @ concat (replicate (length entries - k)
            (map (\<lambda>v. Emit_connectionRemoved (snd v)) (entries ! nat index))))"
proof (induction index entries k callLog rule: emitRemovedLoop.induct)
  case (1 index entries i callLog)
  show ?case
  proof (cases "i < length entries")
    case True
    then have r: "length entries - i = Suc (length entries - (i + 1))"
      by simp
    have "emitRemovedLoop index entries i callLog =
          emitRemovedLoop index entries (i + 1)
            (callLog @ map Emit_connectionRemoved (map snd (entries ! nat index)))"
      using True "1.prems" by (subst emitRemovedLoop.simps) (simp add: Let_def)
    also have "\<dots> = Inr ((callLog @ map Emit_connectionRemoved (map snd (entries ! nat index)))
                 @ concat (replicate (length entries - (i + 1))
                     (map (\<lambda>v. Emit_connectionRemoved (snd v)) (entries ! nat index))))"
      using True "1.prems" by (intro "1.IH") auto
    finally show ?thesis
      by (simp only: r) (simp add: comp_def)
  next
    case False
    then show ?thesis
      by (subst emitRemovedLoop.simps) simp
  qed
qed

lemma emitRemovedLoop_once:
  assumes "0 \<le> index" and "index < int (length entries)" and "k + 1 = length entries"
  shows "emitRemovedLoop index entries k callLog =
           Inr (callLog @ map (\<lambda>v. Emit_connectionRemoved (snd v)) (entries ! nat index))"
proof -
  have "length entries - k = Suc 0"
    using assms(3) by simp
  then show ?thesis
    by (simp add: emitRemovedLoop_rounds [OF assms(1,2)])
qed

text \<open>
  Claim C4. For every side \<open>portType\<close> and every index \<open>i\<close> in the bounds of the entries,
  when the data model's \<open>nPorts portType\<close> is one less than the number of entries,
  \<open>onPortRemoved portType i\<close> first emits \<open>connectionRemoved\<close> once for each element of the
  connection set of port \<open>i\<close> (and emits nothing else), then erases entry \<open>i\<close>, which succeeds
  and leaves the other entries in their order, and ends with \<open>updateGraphics\<close>. On a node
  whose graphics object is set the whole operation succeeds.
\<close>

theorem onPortRemoved_emits_then_erases:
  assumes "0 \<le> i" and "i < int (length (getEntries portType n))"
    and "nPorts (nodeDataModel n) portType + 1 = length (getEntries portType n)"
  shows "\<exists>n1. eraseEntry portType i
                (n\<lparr>calls := calls n @
                     map (\<lambda>v. Emit_connectionRemoved (snd v)) (getEntries portType n ! nat i)\<rparr>)
              = Inr n1
           \<and> onPortRemoved portType i n = updateGraphics n1
           \<and> calls n1 =
               calls n @ map (\<lambda>v. Emit_connectionRemoved (snd v)) (getEntries portType n ! nat i)
           \<and> getEntries portType n1 =
               take (nat i) (getEntries portType n) @ drop (nat i + 1) (getEntries portType n)
           \<and> (\<forall>g. nodeGraphicsObject n = Some g \<longrightarrow>
                (\<exists>n'. onPortRemoved portType i n = Inr n'
                   \<and> calls n' =
                       calls n
                       @ map (\<lambda>v. Emit_connectionRemoved (snd v)) (getEntries portType n ! nat i)
                       @ [Graphics_setGeometryChanged, Geometry_recalculateSize,
                          Graphics_update, Graphics_moveConnections]
                   \<and> getEntries portType n' =
                       take (nat i) (getEntries portType n)
                       @ drop (nat i + 1) (getEntries portType n)))"
proof -
  let ?emitted = "map (\<lambda>v. Emit_connectionRemoved (snd v)) (getEntries portType n ! nat i)"
  let ?m = "n\<lparr>calls := calls n @ ?emitted\<rparr>"
  have loop: "emitRemovedLoop i (getEntries portType n) (nPorts (nodeDataModel n) portType) (calls n)
                = Inr (calls n @ ?emitted)"
    by (rule emitRemovedLoop_once [OF assms])
  have b: "i < int (length (getEntries portType ?m))"
    using assms(2) by simp
  from eraseEntry_shrinks_entries [OF assms(1) b] obtain n1 where
    ers: "eraseEntry portType i ?m = Inr n1" and
    ent: "getEntries portType n1 =
            take (nat i) (getEntries portType n) @ drop (nat i + 1) (getEntries portType n)"
    by auto
  have keep: "nodeGraphicsObject n1 = nodeGraphicsObject n \<and> calls n1 = calls n @ ?emitted"
    using eraseEntry_keeps [OF ers] by simp
  have run: "onPortRemoved portType i n = updateGraphics n1"
    by (simp add: onPortRemoved_def loop ers andThen_def)
  have "\<exists>n'. onPortRemoved portType i n = Inr n'
          \<and> calls n' = calls n @ ?emitted
              @ [Graphics_setGeometryChanged, Geometry_recalculateSize,
                 Graphics_update, Graphics_moveConnections]
          \<and> getEntries portType n' =
              take (nat i) (getEntries portType n) @ drop (nat i + 1) (getEntries portType n)"
    if "nodeGraphicsObject n = Some g" for g
    using that keep ent by (simp add: run updateGraphics_set [of n1 g])
  then show ?thesis
    using ers run keep ent by blast
qed

theorem onPortRemoved_emits_then_erases_witness:
  "(0::int) \<le> 0 \<and> 0 < int (length (getEntries Out portRemovedNode))
   \<and> nPorts (nodeDataModel portRemovedNode) Out + 1 = length (getEntries Out portRemovedNode)
   \<and> nodeGraphicsObject portRemovedNode = Some exampleGraphics
   \<and> getEntries Out portRemovedNode = [[(102, 12)]]
   \<and> \<not> isl (onPortRemoved Out 0 portRemovedNode)
   \<and> calls (projr (onPortRemoved Out 0 portRemovedNode)) =
       [Emit_connectionRemoved 12, Graphics_setGeometryChanged, Geometry_recalculateSize,
        Graphics_update, Graphics_moveConnections]
   \<and> getEntries Out (projr (onPortRemoved Out 0 portRemovedNode)) = []"
proof -
  have es: "getEntries Out portRemovedNode = [[(102, 12)]]"
    by (simp add: getEntries_def portRemovedNode_def exampleNode_def)
  have h1: "(0::int) \<le> 0"
    by simp
  have h2: "(0::int) < int (length (getEntries Out portRemovedNode))"
    by (simp add: es)
  have h3: "nPorts (nodeDataModel portRemovedNode) Out + 1 = length (getEntries Out portRemovedNode)"
    by (simp add: es) (simp add: portRemovedNode_def)
  have g: "nodeGraphicsObject portRemovedNode = Some exampleGraphics"
    by (simp add: portRemovedNode_def exampleNode_def)
  have c: "calls portRemovedNode = []"
    by (simp add: portRemovedNode_def exampleNode_def)
  from onPortRemoved_emits_then_erases [OF h1 h2 h3] g obtain n' where
    "onPortRemoved Out 0 portRemovedNode = Inr n'" and
    "calls n' = calls portRemovedNode
       @ map (\<lambda>v. Emit_connectionRemoved (snd v)) (getEntries Out portRemovedNode ! nat 0)
       @ [Graphics_setGeometryChanged, Geometry_recalculateSize,
          Graphics_update, Graphics_moveConnections]" and
    "getEntries Out n' =
       take (nat 0) (getEntries Out portRemovedNode) @ drop (nat 0 + 1) (getEntries Out portRemovedNode)"
    by blast
  then show ?thesis
    using h3 g by (simp add: es c)
qed

section \<open>Saving and restoring the node\<close>

text \<open>
  Claim C6. For every node \<open>n\<close> whose graphics object is set, \<open>save\<close> succeeds and returns
  a JSON object with exactly the keys \<open>id\<close>, \<open>model\<close> and \<open>position\<close>, where \<open>position\<close> is an
  object with exactly the keys \<open>x\<close> and \<open>y\<close>. Restoring that object into the node (in the
  state \<open>m\<close> it has by then, its graphics object still set) succeeds, and afterwards \<open>id\<close>
  returns the identifier and the graphics object has the position that the node had when
  \<open>save\<close> was called. The library's reading of an identifier's textual form is assumed to
  give back the identifier that was written.
\<close>

theorem save_restore_roundtrip:
  assumes "nodeGraphicsObject n = Some g" and "nodeGraphicsObject m = Some g'"
    and "uuidFromString (uuidToString (uid n)) = uid n"
  shows "\<exists>json m'. save uuidToString n = Inr json
           \<and> jsonKeys json = [''id'', ''model'', ''position'']
           \<and> jsonKeys (toObject (jsonGet json ''position'')) = [''x'', ''y'']
           \<and> restore uuidFromString json m = Inr m'
           \<and> id_of m' = id_of n
           \<and> map_option pos (nodeGraphicsObject m') = Some (pos g)"
  using assms
  by (simp add: save_def restore_def Let_def jsonKeys_def jsonGet_def toObject_def toString_def
      toDouble_def id_of_def)

theorem save_restore_roundtrip_witness:
  "nodeGraphicsObject exampleNode = Some exampleGraphics
   \<and> exampleUuidFromString (exampleUuidToString (uid exampleNode)) = uid exampleNode
   \<and> \<not> isl (save exampleUuidToString exampleNode)
   \<and> jsonKeys (projr (save exampleUuidToString exampleNode)) = [''id'', ''model'', ''position'']
   \<and> id_of (projr (restore exampleUuidFromString (projr (save exampleUuidToString exampleNode))
              exampleNode)) = 3
   \<and> map_option pos (nodeGraphicsObject
        (projr (restore exampleUuidFromString (projr (save exampleUuidToString exampleNode))
           exampleNode))) = Some \<lparr>xp = 3, yp = 4\<rparr>"
proof -
  have g: "nodeGraphicsObject exampleNode = Some exampleGraphics"
    by (simp add: exampleNode_def)
  have u: "exampleUuidFromString (exampleUuidToString (uid exampleNode)) = uid exampleNode"
    by (simp add: exampleUuidFromString_def exampleUuidToString_def)
  have i: "id_of exampleNode = 3"
    by (simp add: id_of_def exampleNode_def)
  from save_restore_roundtrip [where uuidToString = exampleUuidToString
      and uuidFromString = exampleUuidFromString, OF g g u] obtain json m' where
    "save exampleUuidToString exampleNode = Inr json" and
    "jsonKeys json = [''id'', ''model'', ''position'']" and
    "restore exampleUuidFromString json exampleNode = Inr m'" and
    "id_of m' = id_of exampleNode" and
    "map_option pos (nodeGraphicsObject m') =
       Some (pos exampleGraphics)"
    by blast
  then show ?thesis
    using g u i by (simp add: exampleGraphics_def)
qed

section \<open>Reacting to a possible connection and resetting the reaction\<close>

text \<open>
  Claim C8. On a node whose graphics object is set, for every reacting port type, data type
  and scene point, \<open>reactToPossibleConnection\<close> succeeds, sets the reaction of the node state
  to \<open>REACTING\<close> with exactly that port type and data type, and sets the dragging position
  of the geometry to the scene point mapped through the inverse of the graphics object's
  scene transform. \<open>resetReactionToConnection\<close> succeeds, on the node as it is after the
  reaction as on any node whose graphics object is set, and sets the reaction to
  \<open>NOT_REACTING\<close>. Neither operation changes the node's identifier or its connection
  entries.
\<close>

theorem reaction_set_and_reset:
  assumes "nodeGraphicsObject n = Some g"
  shows "\<exists>n' n''.
           reactToPossibleConnection inverted mapPoint reactingPort reactingData scenePoint n = Inr n'
           \<and> reaction (nodeState n') = REACTING
           \<and> reactingPortType (nodeState n') = reactingPort
           \<and> reactingDataType (nodeState n') = reactingData
           \<and> draggingPos (nodeGeometry n') = mapPoint (inverted (sceneTransform g)) scenePoint
           \<and> id_of n' = id_of n
           \<and> getEntries In n' = getEntries In n
           \<and> getEntries Out n' = getEntries Out n
           \<and> resetReactionToConnection defaultPort defaultData n' = Inr n''
           \<and> reaction (nodeState n'') = NOT_REACTING
           \<and> id_of n'' = id_of n
           \<and> getEntries In n'' = getEntries In n
           \<and> getEntries Out n'' = getEntries Out n
           \<and> (\<exists>k. resetReactionToConnection defaultPort defaultData n = Inr k
                  \<and> reaction (nodeState k) = NOT_REACTING
                  \<and> id_of k = id_of n
                  \<and> getEntries In k = getEntries In n
                  \<and> getEntries Out k = getEntries Out n)"
  using assms
  by (simp add: reactToPossibleConnection_def resetReactionToConnection_def Let_def
      setReaction_def setDraggingPosition_def id_of_def getEntries_def)

theorem reaction_set_and_reset_witness:
  "nodeGraphicsObject exampleNode = Some exampleGraphics
   \<and> \<not> isl (reactToPossibleConnection exampleInverted exampleMap Out ''number''
              \<lparr>xp = 10, yp = 20\<rparr> exampleNode)
   \<and> reaction (nodeState (projr (reactToPossibleConnection exampleInverted exampleMap Out ''number''
              \<lparr>xp = 10, yp = 20\<rparr> exampleNode))) = REACTING
   \<and> draggingPos (nodeGeometry (projr (reactToPossibleConnection exampleInverted exampleMap Out
              ''number'' \<lparr>xp = 10, yp = 20\<rparr> exampleNode))) = \<lparr>xp = 7, yp = 16\<rparr>
   \<and> reaction (nodeState (projr (resetReactionToConnection In ''''
        (projr (reactToPossibleConnection exampleInverted exampleMap Out ''number''
              \<lparr>xp = 10, yp = 20\<rparr> exampleNode))))) = NOT_REACTING"
proof -
  have g: "nodeGraphicsObject exampleNode = Some exampleGraphics"
    by (simp add: exampleNode_def)
  have p: "exampleMap (exampleInverted (sceneTransform exampleGraphics))
             \<lparr>xp = 10, yp = 20\<rparr> = \<lparr>xp = 7, yp = 16\<rparr>"
    by (simp add: exampleMap_def exampleInverted_def exampleGraphics_def)
  from reaction_set_and_reset [OF g, of exampleInverted exampleMap Out "''number''"
      "\<lparr>xp = 10, yp = 20\<rparr>" In "''''"]
  obtain n' n'' where
    "reactToPossibleConnection exampleInverted exampleMap Out ''number'' \<lparr>xp = 10, yp = 20\<rparr>
       exampleNode = Inr n'" and
    "reaction (nodeState n') = REACTING" and
    "draggingPos (nodeGeometry n') =
       exampleMap (exampleInverted (sceneTransform exampleGraphics))
         \<lparr>xp = 10, yp = 20\<rparr>" and
    "resetReactionToConnection In '''' n' = Inr n''" and
    "reaction (nodeState n'') = NOT_REACTING"
    by blast
  then show ?thesis
    using g p by simp
qed

section \<open>The graphics object as a precondition\<close>

lemma onPortAdded_null:
  "nodeGraphicsObject n = None \<Longrightarrow> isl (onPortAdded portType i n)"
  by (cases "insertEntry portType i n")
     (auto simp: onPortAdded_def andThen_def updateGraphics_def dest: insertEntry_keeps)

lemma onPortMoved_null:
  assumes "nodeGraphicsObject n = None"
  shows "isl (onPortMoved portType i j n)"
proof (cases "i < 0 \<or> int (length (getEntries portType n)) \<le> i")
  case True
  then show ?thesis by (auto simp: onPortMoved_def Let_def)
next
  case c: False
  show ?thesis
  proof (cases "eraseEntry portType i n")
    case (Inl e)
    then show ?thesis using c by (simp add: onPortMoved_def Let_def andThen_def)
  next
    case e: (Inr n1)
    then have g1: "nodeGraphicsObject n1 = None"
      using assms eraseEntry_keeps by fastforce
    show ?thesis
    proof (cases "insertEntry portType j n1")
      case (Inl e')
      then show ?thesis using c by (simp add: onPortMoved_def Let_def andThen_def e)
    next
      case (Inr n2)
      then have "nodeGraphicsObject n2 = None"
        using g1 insertEntry_keeps by fastforce
      then show ?thesis
        using c by (simp add: onPortMoved_def Let_def andThen_def e Inr updateGraphics_def)
    qed
  qed
qed

lemma onPortRemoved_null:
  assumes "nodeGraphicsObject n = None"
  shows "isl (onPortRemoved portType i n)"
proof (cases "emitRemovedLoop i (getEntries portType n) (nPorts (nodeDataModel n) portType) (calls n)")
  case (Inl e)
  then show ?thesis by (simp add: onPortRemoved_def andThen_def)
next
  case l: (Inr callLog)
  show ?thesis
  proof (cases "eraseEntry portType i (n\<lparr>calls := callLog\<rparr>)")
    case (Inl e)
    then show ?thesis by (simp add: onPortRemoved_def andThen_def l)
  next
    case (Inr n1)
    then have "nodeGraphicsObject n1 = None"
      using assms eraseEntry_keeps by fastforce
    then show ?thesis
      by (simp add: onPortRemoved_def andThen_def l Inr updateGraphics_def)
  qed
qed

lemma insertEntry_error: "insertEntry portType i n = Inl e \<Longrightarrow> e = IndexOutOfRange"
  by (auto simp: insertEntry_def Let_def split: if_splits)

lemma eraseEntry_error: "eraseEntry portType i n = Inl e \<Longrightarrow> e = IndexOutOfRange"
  by (auto simp: eraseEntry_def Let_def split: if_splits)

lemma emitRemovedLoop_error:
  "emitRemovedLoop index entries k callLog = Inl e \<Longrightarrow> e = IndexOutOfRange"
proof (induction index entries k callLog rule: emitRemovedLoop.induct)
  case (1 index entries i callLog)
  from "1.prems" show ?case
    by (subst (asm) emitRemovedLoop.simps) (auto simp: Let_def split: if_splits dest: "1.IH")
qed

text \<open>
  With the graphics object set, a port-change handler either stops at an index out of range
  or returns a node whose graphics object is the same.
\<close>

lemma onPortAdded_set:
  assumes "nodeGraphicsObject n = Some g"
  shows "onPortAdded portType i n = Inl IndexOutOfRange
         \<or> (\<exists>n'. onPortAdded portType i n = Inr n' \<and> nodeGraphicsObject n' = Some g)"
proof (cases "insertEntry portType i n")
  case (Inl e)
  then show ?thesis
    using insertEntry_error [OF Inl] by (simp add: onPortAdded_def andThen_def)
next
  case (Inr n1)
  then have "nodeGraphicsObject n1 = Some g"
    using assms insertEntry_keeps by fastforce
  then show ?thesis
    by (simp add: onPortAdded_def andThen_def Inr updateGraphics_def)
qed

lemma onPortMoved_set:
  assumes "nodeGraphicsObject n = Some g"
  shows "onPortMoved portType i j n = Inl IndexOutOfRange
         \<or> (\<exists>n'. onPortMoved portType i j n = Inr n' \<and> nodeGraphicsObject n' = Some g)"
proof (cases "i < 0 \<or> int (length (getEntries portType n)) \<le> i")
  case True
  then show ?thesis by (auto simp: onPortMoved_def Let_def)
next
  case c: False
  show ?thesis
  proof (cases "eraseEntry portType i n")
    case (Inl e)
    then show ?thesis
      using c eraseEntry_error [OF Inl] by (simp add: onPortMoved_def Let_def andThen_def)
  next
    case e: (Inr n1)
    then have g1: "nodeGraphicsObject n1 = Some g"
      using assms eraseEntry_keeps by fastforce
    show ?thesis
    proof (cases "insertEntry portType j n1")
      case (Inl e')
      then show ?thesis
        using c insertEntry_error [OF Inl] by (simp add: onPortMoved_def Let_def andThen_def e)
    next
      case (Inr n2)
      then have "nodeGraphicsObject n2 = Some g"
        using g1 insertEntry_keeps by fastforce
      then show ?thesis
        using c by (simp add: onPortMoved_def Let_def andThen_def e Inr updateGraphics_def)
    qed
  qed
qed

lemma onPortRemoved_set:
  assumes "nodeGraphicsObject n = Some g"
  shows "onPortRemoved portType i n = Inl IndexOutOfRange
         \<or> (\<exists>n'. onPortRemoved portType i n = Inr n' \<and> nodeGraphicsObject n' = Some g)"
proof (cases "emitRemovedLoop i (getEntries portType n) (nPorts (nodeDataModel n) portType) (calls n)")
  case (Inl e)
  then show ?thesis
    using emitRemovedLoop_error [OF Inl] by (simp add: onPortRemoved_def andThen_def)
next
  case l: (Inr callLog)
  show ?thesis
  proof (cases "eraseEntry portType i (n\<lparr>calls := callLog\<rparr>)")
    case (Inl e)
    then show ?thesis
      using eraseEntry_error [OF Inl] by (simp add: onPortRemoved_def andThen_def l)
  next
    case (Inr n1)
    then have "nodeGraphicsObject n1 = Some g"
      using assms eraseEntry_keeps by fastforce
    then show ?thesis
      by (simp add: onPortRemoved_def andThen_def l Inr updateGraphics_def)
  qed
qed

lemma set_handler_result:
  assumes "r = Inl IndexOutOfRange \<or> (\<exists>n'. r = Inr n' \<and> nodeGraphicsObject n' = Some g)"
  shows "r \<noteq> Inl NullGraphicsObject \<and> keepsGraphicsObject r"
  using assms by (auto simp: keepsGraphicsObject_def)

text \<open>
  Claim C9. The constructor leaves the graphics pointer null. On a node whose graphics
  pointer is null (the freshly constructed node is one), \<open>save\<close>, \<open>restore\<close>,
  \<open>reactToPossibleConnection\<close>, \<open>resetReactionToConnection\<close>, \<open>updateGraphics\<close> and
  \<open>propagateData\<close> end in the dereference of the null pointer, and the three port-change
  handlers never return normally (they end in that dereference or, before it, in an index
  out of range). After \<open>setGraphicsObject\<close> with a graphics object that is not null the
  pointer is set; on a node whose graphics pointer is set none of these nine operations
  reaches the dereference of a null pointer, and each of them that returns a node returns
  one whose graphics pointer is still set.
\<close>

theorem graphics_object_precondition:
  "nodeGraphicsObject (newNode createdUuid dataModel initialState initialGeometry store) = None
   \<and> (nodeGraphicsObject n = None \<longrightarrow>
        save uuidToString n = Inl NullGraphicsObject
        \<and> restore uuidFromString json n = Inl NullGraphicsObject
        \<and> reactToPossibleConnection inverted mapPoint reactingPort reactingData scenePoint n
            = Inl NullGraphicsObject
        \<and> resetReactionToConnection defaultPort defaultData n = Inl NullGraphicsObject
        \<and> updateGraphics n = Inl NullGraphicsObject
        \<and> propagateData d inPort n = Inl NullGraphicsObject
        \<and> isl (onPortAdded portType i n)
        \<and> isl (onPortMoved portType i j n)
        \<and> isl (onPortRemoved portType i n))
   \<and> nodeGraphicsObject (setGraphicsObject (Some g) n) = Some g
   \<and> (nodeGraphicsObject n = Some g \<longrightarrow>
        save uuidToString n \<noteq> Inl NullGraphicsObject
        \<and> restore uuidFromString json n \<noteq> Inl NullGraphicsObject
        \<and> keepsGraphicsObject (restore uuidFromString json n)
        \<and> reactToPossibleConnection inverted mapPoint reactingPort reactingData scenePoint n
            \<noteq> Inl NullGraphicsObject
        \<and> keepsGraphicsObject
            (reactToPossibleConnection inverted mapPoint reactingPort reactingData scenePoint n)
        \<and> resetReactionToConnection defaultPort defaultData n \<noteq> Inl NullGraphicsObject
        \<and> keepsGraphicsObject (resetReactionToConnection defaultPort defaultData n)
        \<and> updateGraphics n \<noteq> Inl NullGraphicsObject
        \<and> keepsGraphicsObject (updateGraphics n)
        \<and> propagateData d inPort n \<noteq> Inl NullGraphicsObject
        \<and> keepsGraphicsObject (propagateData d inPort n)
        \<and> onPortAdded portType i n \<noteq> Inl NullGraphicsObject
        \<and> keepsGraphicsObject (onPortAdded portType i n)
        \<and> onPortMoved portType i j n \<noteq> Inl NullGraphicsObject
        \<and> keepsGraphicsObject (onPortMoved portType i j n)
        \<and> onPortRemoved portType i n \<noteq> Inl NullGraphicsObject
        \<and> keepsGraphicsObject (onPortRemoved portType i n))"
proof -
  have a: "nodeGraphicsObject (newNode createdUuid dataModel initialState initialGeometry store) = None"
    by (simp add: newNode_def)
  have b: "save uuidToString n = Inl NullGraphicsObject
        \<and> restore uuidFromString json n = Inl NullGraphicsObject
        \<and> reactToPossibleConnection inverted mapPoint reactingPort reactingData scenePoint n
            = Inl NullGraphicsObject
        \<and> resetReactionToConnection defaultPort defaultData n = Inl NullGraphicsObject
        \<and> updateGraphics n = Inl NullGraphicsObject
        \<and> propagateData d inPort n = Inl NullGraphicsObject"
    if "nodeGraphicsObject n = None"
    using that
    by (simp add: save_def restore_def reactToPossibleConnection_def
        resetReactionToConnection_def updateGraphics_def propagateData_def Let_def)
  have c: "nodeGraphicsObject (setGraphicsObject (Some g) n) = Some g"
    by (simp add: setGraphicsObject_def)
  have d: "save uuidToString n \<noteq> Inl NullGraphicsObject
        \<and> restore uuidFromString json n \<noteq> Inl NullGraphicsObject
        \<and> keepsGraphicsObject (restore uuidFromString json n)
        \<and> reactToPossibleConnection inverted mapPoint reactingPort reactingData scenePoint n
            \<noteq> Inl NullGraphicsObject
        \<and> keepsGraphicsObject
            (reactToPossibleConnection inverted mapPoint reactingPort reactingData scenePoint n)
        \<and> resetReactionToConnection defaultPort defaultData n \<noteq> Inl NullGraphicsObject
        \<and> keepsGraphicsObject (resetReactionToConnection defaultPort defaultData n)
        \<and> updateGraphics n \<noteq> Inl NullGraphicsObject
        \<and> keepsGraphicsObject (updateGraphics n)
        \<and> propagateData d inPort n \<noteq> Inl NullGraphicsObject
        \<and> keepsGraphicsObject (propagateData d inPort n)"
    if "nodeGraphicsObject n = Some g"
    using that
    by (simp add: save_def restore_def reactToPossibleConnection_def
        resetReactionToConnection_def updateGraphics_def propagateData_def Let_def
        keepsGraphicsObject_def)
  have e: "onPortAdded portType i n \<noteq> Inl NullGraphicsObject
        \<and> keepsGraphicsObject (onPortAdded portType i n)"
      "onPortMoved portType i j n \<noteq> Inl NullGraphicsObject
        \<and> keepsGraphicsObject (onPortMoved portType i j n)"
      "onPortRemoved portType i n \<noteq> Inl NullGraphicsObject
        \<and> keepsGraphicsObject (onPortRemoved portType i n)"
    if "nodeGraphicsObject n = Some g"
    using set_handler_result [OF onPortAdded_set [OF that]]
      set_handler_result [OF onPortMoved_set [OF that]]
      set_handler_result [OF onPortRemoved_set [OF that]]
    by blast+
  show ?thesis
    by (intro conjI impI)
       (simp_all add: a b c d e onPortAdded_null onPortMoved_null onPortRemoved_null)
qed

theorem graphics_object_precondition_witness:
  "nodeGraphicsObject freshNode = None
   \<and> updateGraphics freshNode = Inl NullGraphicsObject
   \<and> save exampleUuidToString freshNode = Inl NullGraphicsObject
   \<and> isl (onPortAdded In 0 freshNode)
   \<and> nodeGraphicsObject (setGraphicsObject (Some exampleGraphics) freshNode) = Some exampleGraphics
   \<and> updateGraphics (setGraphicsObject (Some exampleGraphics) freshNode) \<noteq> Inl NullGraphicsObject
   \<and> save exampleUuidToString (setGraphicsObject (Some exampleGraphics) freshNode)
       \<noteq> Inl NullGraphicsObject
   \<and> onPortRemoved In 0 (setGraphicsObject (Some exampleGraphics) freshNode)
       \<noteq> Inl NullGraphicsObject
   \<and> keepsGraphicsObject (onPortRemoved In 0 (setGraphicsObject (Some exampleGraphics) freshNode))"
proof -
  let ?n = "setGraphicsObject (Some exampleGraphics) freshNode"
  have f: "nodeGraphicsObject freshNode = None"
    by (simp add: freshNode_def newNode_def)
  have s: "nodeGraphicsObject ?n = Some exampleGraphics"
    by (simp add: setGraphicsObject_def)
  have "updateGraphics freshNode = Inl NullGraphicsObject
        \<and> save exampleUuidToString freshNode = Inl NullGraphicsObject
        \<and> isl (onPortAdded In 0 freshNode)"
    using graphics_object_precondition [where n = freshNode and uuidToString = exampleUuidToString
        and portType = In and i = 0] f
    by blast
  moreover have "updateGraphics ?n \<noteq> Inl NullGraphicsObject
        \<and> save exampleUuidToString ?n \<noteq> Inl NullGraphicsObject
        \<and> onPortRemoved In 0 ?n \<noteq> Inl NullGraphicsObject
        \<and> keepsGraphicsObject (onPortRemoved In 0 ?n)"
    using graphics_object_precondition [where n = ?n and g = exampleGraphics
        and uuidToString = exampleUuidToString and portType = In and i = 0] s
    by blast
  ultimately show ?thesis
    using f s by simp
qed

section \<open>Moving a port\<close>

text \<open>
  At every pair of indices in the bounds of the vector, the connection set at the new
  position is empty after the move, whatever was registered at the old position.
\<close>

lemma onPortMoved_new_entry_empty:
  assumes "0 \<le> oldIndex" and "oldIndex < int (length (getEntries portType n))"
    and "0 \<le> newIndex" and "newIndex < int (length (getEntries portType n))"
    and "nodeGraphicsObject n = Some g"
  shows "\<exists>n'. onPortMoved portType oldIndex newIndex n = Inr n'
           \<and> length (getEntries portType n') = length (getEntries portType n)
           \<and> getEntries portType n' ! nat newIndex = []"
proof -
  let ?es = "getEntries portType n"
  from eraseEntry_shrinks_entries [OF assms(1,2)] obtain n1 where
    e: "eraseEntry portType oldIndex n = Inr n1" and
    es1: "getEntries portType n1 = take (nat oldIndex) ?es @ drop (nat oldIndex + 1) ?es"
    by blast
  have len1: "length (getEntries portType n1) + 1 = length ?es"
    using assms(1,2) by (simp add: es1)
  have b: "newIndex \<le> int (length (getEntries portType n1))"
    using assms(4) len1 by linarith
  from insertEntry_grows_entries [OF assms(3) b] obtain n2 where
    i: "insertEntry portType newIndex n1 = Inr n2" and
    es2: "getEntries portType n2 =
            take (nat newIndex) (getEntries portType n1) @ [] # drop (nat newIndex) (getEntries portType n1)"
    by blast
  have lt: "length (take (nat newIndex) (getEntries portType n1)) = nat newIndex"
    using b assms(3) by simp
  have at: "getEntries portType n2 ! nat newIndex = []"
    by (simp add: es2 nth_append lt del: length_take)
  have len2: "length (getEntries portType n2) = length ?es"
    using len1 by (simp add: es2)
  have g2: "nodeGraphicsObject n2 = Some g"
    using assms(5) eraseEntry_keeps [OF e] insertEntry_keeps [OF i] by simp
  have "onPortMoved portType oldIndex newIndex n = updateGraphics n2"
    using assms(1,2) by (simp add: onPortMoved_def Let_def andThen_def e i)
  then show ?thesis
    using at len2 by (simp add: updateGraphics_set [OF g2])
qed

text \<open>
  Claim C1 says that after \<open>onPortMoved portType oldIndex newIndex\<close> the connections that
  were registered at port \<open>oldIndex\<close> are registered at port \<open>newIndex\<close>. The code does not do
  that: it erases the entry at \<open>oldIndex\<close> and inserts an empty connection set at
  \<open>newIndex\<close>, and the connection set that it copied from the old port is dropped. On the
  example node, connection 10 is
  registered at input port 0 before \<open>onPortMoved In 0 1\<close>; afterwards the connection set of
  port 1 is empty, connection 10 is registered at no port, and the connection object itself
  is unchanged: it still names port 0 of the node. Connection 11, which was at port 1, is
  now at port 0 and stores index 0.
\<close>

theorem onPortMoved_drops_connections:
  "registeredAt 10 0 (getEntries In exampleNode)
   \<and> \<not> isl (onPortMoved In 0 1 exampleNode)
   \<and> getEntries In (projr (onPortMoved In 0 1 exampleNode)) = [[(101, 11)], []]
   \<and> \<not> registeredAt 10 1 (getEntries In (projr (onPortMoved In 0 1 exampleNode)))
   \<and> registrations 10 (getEntries In (projr (onPortMoved In 0 1 exampleNode))) = 0
   \<and> connectionObjects (projr (onPortMoved In 0 1 exampleNode)) 10 = connectionObjects exampleNode 10
   \<and> getPortIndex In (connectionObjects (projr (onPortMoved In 0 1 exampleNode)) 10) = 0
   \<and> getPortIndex In (connectionObjects (projr (onPortMoved In 0 1 exampleNode)) 11) = 0"
  by (simp add: registeredAt_def registrations_def exampleNode_def exampleStore_def getEntries_def
      setEntries_def getNode_def getPortIndex_def eraseEntry_def insertEntry_def onPortMoved_def
      andThen_def updateGraphics_def shiftFrom.simps shiftSet_def
      shiftConnection_def setNodeToPort_def Let_def)

end
